theory Spec2Isabelle
  imports Main "HOL-Library.Word"
begin

section \<open>Shared message model\<close>

text \<open>
  \<^verbatim>\<open>clientMessage\<close> is a Go map from string keys to string values (longpoll.go assigns a
  \<^verbatim>\<open>clientMessage{}\<close> to a variable of type \<^verbatim>\<open>map[string]string\<close>). Indexing a Go map
  at a missing key gives the zero value, the empty string.
\<close>

type_synonym clientMessage = "string \<rightharpoonup> string"

definition at :: "clientMessage \<Rightarrow> string \<Rightarrow> string" where
  "at m k = (case m k of None \<Rightarrow> [] | Some v \<Rightarrow> v)"

text \<open>
  Modelled from the spec: the message type constants are declared outside the files under
  src/. The spec names the ten recognised types; the test suite fixes
  \<^verbatim>\<open>MessageMessage = "message"\<close>. The other spellings are placeholders: the transports
  only compare them, so the development uses nothing but their being pairwise distinct.
\<close>

definition AuthMessage :: string where "AuthMessage = ''auth''"
definition AuthOKMessage :: string where "AuthOKMessage = ''authOk''"
definition AuthFailedMessage :: string where "AuthFailedMessage = ''authError''"
definition SubscribeMessage :: string where "SubscribeMessage = ''subscribe''"
definition SubscribeOKMessage :: string where "SubscribeOKMessage = ''subscribeOk''"
definition SubscribeErrorMessage :: string where "SubscribeErrorMessage = ''subscribeError''"
definition UnsubscribeMessage :: string where "UnsubscribeMessage = ''unsubscribe''"
definition UnsubscribeOKMessage :: string where "UnsubscribeOKMessage = ''unsubscribeOk''"
definition MessageMessage :: string where "MessageMessage = ''message''"
definition UnknownMessage :: string where "UnknownMessage = ''unknown''"

definition known_types :: "string list" where
  "known_types = [AuthMessage, AuthOKMessage, AuthFailedMessage, SubscribeMessage,
     SubscribeOKMessage, SubscribeErrorMessage, UnsubscribeMessage, UnsubscribeOKMessage,
     MessageMessage, UnknownMessage]"

text \<open>
  Modelled from the spec: the methods \<^verbatim>\<open>Type()\<close> and \<^verbatim>\<open>Token()\<close> of clientMessage are
  not under src/. The spec: the long-poll discriminator is the key \<^verbatim>\<open>__type\<close>, and "a
  message with any other type or no type is UnknownMessage"; the token travels under
  \<^verbatim>\<open>__token\<close>.
\<close>

definition Type :: "clientMessage \<Rightarrow> string" where
  "Type m = (if at m ''__type'' \<in> set known_types then at m ''__type'' else UnknownMessage)"

definition Token :: "clientMessage \<Rightarrow> string" where
  "Token m = at m ''__token''"

section \<open>Server configuration and the Hub's command interface\<close>

text \<open>
  The two policy fields of \<^verbatim>\<open>Server\<close> are Go function values that may be nil; nil is
  \<open>None\<close>.
\<close>

record Server =
  CanConnect :: "(clientMessage \<Rightarrow> bool) option"
  CanSubscribe :: "(clientMessage \<Rightarrow> string \<Rightarrow> bool) option"

text \<open>
  A connection is known to the Hub by its identity (in Go, the pointer that is sent over the
  Hub's channels). The four channels the transports write to are the constructors of
  \<open>hub_cmd\<close>; a \<^verbatim>\<open>subscription\<close> value carries the client and the channel name.
\<close>

type_synonym conn_id = nat

datatype hub_cmd =
    NewClient conn_id
  | ClientDisconnect conn_id
  | Subscribe conn_id string
  | Unsubscribe conn_id string

text \<open>
  The Hub itself is not under src/. The transports are therefore parameterised by the Hub:
  a function from a command and the Hub's state to the value the Hub puts on the command's
  \<^verbatim>\<open>Done\<close> channel and the Hub's next state. The model is sequential: a command takes
  effect when it is sent.
\<close>

type_synonym 'h hub_iface = "hub_cmd \<Rightarrow> 'h \<Rightarrow> string option \<times> 'h"

text \<open>
  Modelled from the spec: a concrete Hub, used to run the transports on concrete inputs.
  Spec 3 and 4.1: the Hub holds the live connections and the subscriptions; Register adds
  a connection, Unregister removes it and all its subscriptions, Subscribe adds the pair
  at most once, Unsubscribe removes it whether or not it was there.
\<close>

record hub =
  clients :: "conn_id list"
  subscriptions :: "(string \<times> conn_id) list"

fun hub_handle :: "hub hub_iface" where
  "hub_handle (NewClient c) h = (None, h\<lparr>clients := List.insert c (clients h)\<rparr>)"
| "hub_handle (ClientDisconnect c) h =
     (None, h\<lparr>clients := removeAll c (clients h),
               subscriptions := filter (\<lambda>(ch, c'). c' \<noteq> c) (subscriptions h)\<rparr>)"
| "hub_handle (Subscribe c ch) h =
     (None, h\<lparr>subscriptions := List.insert (ch, c) (subscriptions h)\<rparr>)"
| "hub_handle (Unsubscribe c ch) h =
     (None, h\<lparr>subscriptions := removeAll (ch, c) (subscriptions h)\<rparr>)"

section \<open>Effects\<close>

text \<open>
  Everything a transport task does to the outside is an event, recorded in program order:
  a send on one of the Hub's channels, a receive from a command's \<^verbatim>\<open>Done\<close> channel, a
  write to the websocket, the teardown of the websocket's stream, and the calls on the
  \<^verbatim>\<open>http.ResponseWriter\<close>.
\<close>

datatype body = JSON "clientMessage list" | Text string

datatype event =
    HubSend hub_cmd
  | DoneRecv "string option"
  | WriteJSON clientMessage
  | WriteMessage_Close "8 word list"
  | ConnClose
  | WriteHeader nat
  | WriteBody body

record 'h io =
  hubst :: 'h
  trace :: "event list"

definition emit :: "event \<Rightarrow> ('h, 'z) io_scheme \<Rightarrow> ('h, 'z) io_scheme" where
  "emit e st = st\<lparr>trace := trace st @ [e]\<rparr>"

text \<open>\<^verbatim>\<open>hub.X <- v\<close>: the command is sent and nothing is read back.\<close>

definition hub_send :: "'h hub_iface \<Rightarrow> hub_cmd \<Rightarrow> ('h, 'z) io_scheme \<Rightarrow> ('h, 'z) io_scheme" where
  "hub_send hs cmd st = emit (HubSend cmd) (st\<lparr>hubst := snd (hs cmd (hubst st))\<rparr>)"

text \<open>\<^verbatim>\<open>hub.Subscribe <- s; err := <-s.Done\<close>: the command is sent and the task waits for
  the value on \<^verbatim>\<open>Done\<close>.\<close>

definition hub_call ::
  "'h hub_iface \<Rightarrow> hub_cmd \<Rightarrow> ('h, 'z) io_scheme \<Rightarrow> string option \<times> ('h, 'z) io_scheme" where
  "hub_call hs cmd st =
     (let err = fst (hs cmd (hubst st))
      in (err, emit (DoneRecv err) (hub_send hs cmd st)))"

text \<open>The events emitted between an earlier state and a later one.\<close>

definition since :: "('h, 'z) io_scheme \<Rightarrow> ('h, 'y) io_scheme \<Rightarrow> event list" where
  "since st st' = drop (length (trace st)) (trace st')"

fun hub_cmds :: "event list \<Rightarrow> hub_cmd list" where
  "hub_cmds [] = []"
| "hub_cmds (HubSend c # es) = c # hub_cmds es"
| "hub_cmds (e # es) = hub_cmds es"

text \<open>The events that reach the websocket's peer: what is written to the stream, and its
  teardown.\<close>

fun on_wire :: "event \<Rightarrow> bool" where
  "on_wire (WriteJSON m) = True"
| "on_wire (WriteMessage_Close p) = True"
| "on_wire ConnClose = True"
| "on_wire e = False"

definition wire :: "event list \<Rightarrow> event list" where
  "wire es = filter on_wire es"

text \<open>
  What net/http makes of the calls on a ResponseWriter: the status is that of the first
  \<^verbatim>\<open>WriteHeader\<close>, or 200 when the body is written first; the body is what was written.
\<close>

fun resp_status :: "event list \<Rightarrow> nat option" where
  "resp_status [] = None"
| "resp_status (WriteHeader code # es) = Some code"
| "resp_status (WriteBody b # es) = Some 200"
| "resp_status (e # es) = resp_status es"

fun resp_body :: "event list \<Rightarrow> body list" where
  "resp_body [] = []"
| "resp_body (WriteBody b # es) = b # resp_body es"
| "resp_body (e # es) = resp_body es"

text \<open>\<^verbatim>\<open>http.Error(w, msg, code)\<close> writes the header and the text followed by a newline.\<close>

definition http_Error :: "string \<Rightarrow> nat \<Rightarrow> ('h, 'z) io_scheme \<Rightarrow> ('h, 'z) io_scheme" where
  "http_Error msg code st = emit (WriteBody (Text (msg @ [CHR 0x0A]))) (emit (WriteHeader code) st)"

section \<open>Socket transport (websocket.go)\<close>

text \<open>
  The websocket as the handler sees it. \<open>inbox\<close> holds the frames the connection's reader
  receives from the peer: those that arrive before the peer's stream ends or the handler
  tears the stream down. A frame either decodes to a JSON object of strings, or is a
  condition on which \<^verbatim>\<open>ReadJSON\<close> fails with the given error text (malformed JSON, a
  close frame, a network error). \<^verbatim>\<open>Conn.Close()\<close> closes the underlying network
  connection only: frames already received are still handed out by later reads, and a
  read fails once none is left; writes fail from the moment the stream is closed. \<open>msg\<close>
  is the handler's variable \<^verbatim>\<open>m\<close>.
\<close>

datatype frame = Msg clientMessage | Bad string

record 'h wsio = "'h io" +
  conn_closed :: bool
  inbox :: "frame list"
  msg :: clientMessage

definition err_closed :: string where
  "err_closed = ''use of closed network connection''"

definition err_eof :: string where
  "err_eof = ''unexpected EOF''"

text \<open>
  \<^verbatim>\<open>conn.ReadJSON(&v)\<close>: encoding/json decodes an object into the map it is given and keeps
  the entries already there, so the result is the old map overridden by the frame.
\<close>

definition ReadJSON :: "clientMessage \<Rightarrow> 'h wsio \<Rightarrow> (string + clientMessage) \<times> 'h wsio" where
  "ReadJSON v st =
     (case inbox st of
        [] \<Rightarrow> (Inl (if conn_closed st then err_closed else err_eof), st)
      | Bad e # fs \<Rightarrow> (Inl e, st\<lparr>inbox := fs\<rparr>)
      | Msg d # fs \<Rightarrow> (Inr (v ++ d), st\<lparr>inbox := fs\<rparr>))"

definition conn_write :: "event \<Rightarrow> 'h wsio \<Rightarrow> 'h wsio" where
  "conn_write e st = (if conn_closed st then st else emit e st)"

definition conn_Close :: "'h wsio \<Rightarrow> 'h wsio" where
  "conn_Close st = (if conn_closed st then st else emit ConnClose (st\<lparr>conn_closed := True\<rparr>))"

text \<open>The payload of a close frame: the code as two bytes, big-endian, then the text.\<close>

definition close_payload :: "16 word \<Rightarrow> string \<Rightarrow> 8 word list" where
  "close_payload code m = [ucast (drop_bit 8 code), ucast code] @ map of_char m"

definition ws_Close :: "16 word \<Rightarrow> string \<Rightarrow> 'h wsio \<Rightarrow> 'h wsio" where
  "ws_Close code m st = conn_Close (conn_write (WriteMessage_Close (close_payload code m)) st)"

definition refuses_connect :: "Server \<Rightarrow> clientMessage \<Rightarrow> bool" where
  "refuses_connect srv auth = (case CanConnect srv of None \<Rightarrow> False | Some f \<Rightarrow> \<not> f auth)"

definition refuses_subscribe :: "Server \<Rightarrow> clientMessage \<Rightarrow> string \<Rightarrow> bool" where
  "refuses_subscribe srv auth channel =
     (case CanSubscribe srv of None \<Rightarrow> False | Some f \<Rightarrow> \<not> f auth channel)"

text \<open>
  One pass through the body of the \<^verbatim>\<open>for\<close> loop of \<^verbatim>\<open>handshake\<close>. Only a failed read
  leaves the loop: the \<^verbatim>\<open>break\<close> of the default case leaves the \<^verbatim>\<open>switch\<close>, and the
  refusal ends in \<^verbatim>\<open>continue\<close>; after either, the loop reads again.
\<close>

datatype flow = Continue | Break

definition ws_iter ::
  "Server \<Rightarrow> 'h hub_iface \<Rightarrow> clientMessage \<Rightarrow> conn_id \<Rightarrow> 'h wsio \<Rightarrow> flow \<times> 'h wsio" where
  "ws_iter srv hs auth c st =
     (case ReadJSON (msg st) st of
        (Inl e, st1) \<Rightarrow> (Break, ws_Close 400 e st1)
      | (Inr m, st1) \<Rightarrow>
          (let st2 = st1\<lparr>msg := m\<rparr>; channel = at m ''channel'' in
           if at m ''type'' = SubscribeMessage then
             if refuses_subscribe srv auth channel then
               (Continue, ws_Close 403 ''Channel refused'' st2)
             else
               (case hub_call hs (Subscribe c channel) st2 of
                  (Some e, st3) \<Rightarrow>
                    (Continue, conn_write (WriteJSON [''type'' \<mapsto> SubscribeErrorMessage,
                        ''channel'' \<mapsto> channel, ''error'' \<mapsto> e]) st3)
                | (None, st3) \<Rightarrow>
                    (Continue, conn_write (WriteJSON [''type'' \<mapsto> SubscribeOKMessage,
                        ''channel'' \<mapsto> channel]) st3))
           else if at m ''type'' = UnsubscribeMessage then
             (Continue, conn_write (WriteJSON [''type'' \<mapsto> UnsubscribeOKMessage,
                 ''channel'' \<mapsto> channel]) (hub_send hs (Unsubscribe c channel) st2))
           else
             (Continue, ws_Close 400 ''Unexpected message'' st2)))"

function ws_loop ::
  "Server \<Rightarrow> 'h hub_iface \<Rightarrow> clientMessage \<Rightarrow> conn_id \<Rightarrow> 'h wsio \<Rightarrow> 'h wsio" where
  "ws_loop srv hs auth c st =
     (if fst (ws_iter srv hs auth c st) = Break then snd (ws_iter srv hs auth c st)
      else ws_loop srv hs auth c (snd (ws_iter srv hs auth c st)))"
  by pat_completeness auto
termination
  by (relation "measure (\<lambda>(srv, hs, auth, c, st). length (inbox st))")
     (auto simp: ws_iter_def ReadJSON_def ws_Close_def conn_write_def conn_Close_def emit_def
        hub_call_def hub_send_def Let_def
        split: if_splits list.splits frame.splits option.splits)

declare ws_loop.simps [simp del]

text \<open>
  \<^verbatim>\<open>handshake\<close>. \<open>up\<close> is the outcome of \<^verbatim>\<open>Upgrader.Upgrade\<close>: \<open>Some err\<close> when it fails.
  The deferred function runs when the loop is left: it sends \<^verbatim>\<open>ClientDisconnect\<close> and
  closes the stream.
\<close>

definition ws_handshake ::
  "Server \<Rightarrow> 'h hub_iface \<Rightarrow> string option \<Rightarrow> conn_id \<Rightarrow> 'h wsio \<Rightarrow> 'h wsio" where
  "ws_handshake srv hs up c st =
     (case up of
        Some err \<Rightarrow> http_Error err 400 st
      | None \<Rightarrow>
         (case ReadJSON Map.empty st of
            (Inl e, st1) \<Rightarrow> ws_Close 401 ''Auth expected'' st1
          | (Inr auth, st1) \<Rightarrow>
              if at auth ''type'' \<noteq> AuthMessage then ws_Close 401 ''Auth expected'' st1
              else if refuses_connect srv auth then ws_Close 401 ''Unauthorized'' st1
              else
                (let st2 = conn_write (WriteJSON [''type'' \<mapsto> AuthOKMessage]) st1;
                     st3 = hub_send hs (NewClient c) st2;
                     st4 = ws_loop srv hs auth c (st3\<lparr>msg := Map.empty\<rparr>)
                 in conn_Close (hub_send hs (ClientDisconnect c) st4))))"

text \<open>\<^verbatim>\<open>Send\<close> of a websocket connection writes a MessageMessage.\<close>

definition ws_Send :: "string \<Rightarrow> string \<Rightarrow> 'h wsio \<Rightarrow> 'h wsio" where
  "ws_Send channel message st =
     conn_write (WriteJSON [''type'' \<mapsto> MessageMessage, ''channel'' \<mapsto> channel,
       ''body'' \<mapsto> message]) st"

section \<open>Long-poll transport, server side (longpoll.go)\<close>

text \<open>
  The struct \<^verbatim>\<open>longpollConnection\<close> has the fields Token, Server and AuthData and no
  other; the server is passed to the functions below as \<open>srv\<close>, and the identity of the
  connection (its address) as \<open>c\<close>.
\<close>

record longpollConnection =
  conn_Token :: string
  conn_AuthData :: clientMessage

text \<open>\<^verbatim>\<open>Reply(w, m...)\<close> encodes its messages as one JSON array.\<close>

definition Reply :: "clientMessage list \<Rightarrow> ('h, 'z) io_scheme \<Rightarrow> ('h, 'z) io_scheme" where
  "Reply ms st = emit (WriteBody (JSON ms)) st"

definition lp_handshake ::
  "Server \<Rightarrow> 'h hub_iface \<Rightarrow> conn_id \<Rightarrow> longpollConnection \<Rightarrow> clientMessage \<Rightarrow>
     ('h, 'z) io_scheme \<Rightarrow> string option \<times> longpollConnection \<times> ('h, 'z) io_scheme" where
  "lp_handshake srv hs c conn auth st =
     (if Type auth \<noteq> AuthMessage then
        (Some ''Auth expected'', conn,
         Reply [[''__type'' \<mapsto> AuthFailedMessage, ''reason'' \<mapsto> ''Auth expected'']]
           (emit (WriteHeader 401) st))
      else if refuses_connect srv auth then
        (Some ''Unauthorized'', conn,
         Reply [[''__type'' \<mapsto> AuthFailedMessage, ''reason'' \<mapsto> ''Unauthorized'']]
           (emit (WriteHeader 401) st))
      else
        (None, conn\<lparr>conn_AuthData := auth\<rparr>,
         hub_send hs (NewClient c)
           (emit (WriteBody (JSON [[''__type'' \<mapsto> AuthOKMessage,
              ''__token'' \<mapsto> conn_Token conn]])) st)))"

text \<open>
  \<^verbatim>\<open>newLongpollConnection\<close>. \<open>tok\<close> is the value \<^verbatim>\<open>uuid.New()\<close> returns; it is drawn before
  the handshake on every path.
\<close>

definition newLongpollConnection ::
  "Server \<Rightarrow> 'h hub_iface \<Rightarrow> string \<Rightarrow> conn_id \<Rightarrow> clientMessage \<Rightarrow>
     ('h, 'z) io_scheme \<Rightarrow> (string + longpollConnection) \<times> ('h, 'z) io_scheme" where
  "newLongpollConnection srv hs tok c m st =
     (case lp_handshake srv hs c \<lparr>conn_Token = tok, conn_AuthData = Map.empty\<rparr> m st of
        (Some err, conn, st') \<Rightarrow> (Inl err, st')
      | (None, conn, st') \<Rightarrow> (Inr conn, st'))"

text \<open>\<^verbatim>\<open>Send\<close> of a long-poll connection has an empty body.\<close>

definition lp_Send ::
  "longpollConnection \<Rightarrow> string \<Rightarrow> string \<Rightarrow> ('h, 'z) io_scheme \<Rightarrow>
     longpollConnection \<times> ('h, 'z) io_scheme" where
  "lp_Send conn channel message st = (conn, st)"

definition Handle ::
  "Server \<Rightarrow> 'h hub_iface \<Rightarrow> conn_id \<Rightarrow> longpollConnection \<Rightarrow> clientMessage \<Rightarrow>
     ('h, 'z) io_scheme \<Rightarrow> ('h, 'z) io_scheme" where
  "Handle srv hs c conn m st =
     (if Type m = SubscribeMessage then
        (let channel = at m ''channel'' in
         if refuses_subscribe srv (conn_AuthData conn) channel then
           Reply [[''__type'' \<mapsto> SubscribeErrorMessage, ''channel'' \<mapsto> channel,
                   ''error'' \<mapsto> ''Channel refused'']] st
         else
           (case hub_call hs (Subscribe c channel) st of
              (Some e, st1) \<Rightarrow>
                Reply [[''__type'' \<mapsto> SubscribeErrorMessage, ''channel'' \<mapsto> channel,
                        ''error'' \<mapsto> e]] st1
            | (None, st1) \<Rightarrow>
                Reply [[''__type'' \<mapsto> SubscribeOKMessage, ''channel'' \<mapsto> channel]] st1))
      else http_Error ''Unexpected message'' 400 st)"

section \<open>Long-poll transport, client side (longpoll.go)\<close>

text \<open>
  \<open>messages\<close> is the buffered channel of the transport and \<open>messages_closed\<close> says whether
  it has been closed; \<open>posted\<close> records the bodies handed to \<^verbatim>\<open>httpClient.Post\<close>, in
  order; \<open>skip_auth\<close> is the flag of the owning client. The channel's capacity of ten is
  not modelled: its consumer runs in another task.
\<close>

record longpollClientTransport =
  skip_auth :: bool
  messages :: "clientMessage list"
  messages_closed :: bool
  err :: "string option"
  token :: string
  posted :: "clientMessage list"

definition newlongpollClientTransport :: "bool \<Rightarrow> longpollClientTransport" where
  "newlongpollClientTransport skip =
     \<lparr>skip_auth = skip, messages = [], messages_closed = False, err = None, token = [],
      posted = []\<rparr>"

text \<open>
  A call either returns its error value (\<open>None\<close> is nil) or panics: sending on a closed
  channel and closing a closed channel panic in Go.
\<close>

datatype outcome = Returned "string option" | Panic string

text \<open>
  \<^verbatim>\<open>Send\<close>. \<open>post\<close> is the HTTP exchange: the transport error of \<^verbatim>\<open>Post\<close>, or the array
  decoded from the response body (empty when the body is not such an array, as the
  decoder's error is dropped).
\<close>

definition lpc_Send ::
  "(clientMessage \<Rightarrow> string + clientMessage list) \<Rightarrow> clientMessage \<Rightarrow>
     longpollClientTransport \<Rightarrow> outcome \<times> longpollClientTransport" where
  "lpc_Send post data t =
     (let data' = data(''__token'' \<mapsto> token t);
          t1 = t\<lparr>posted := posted t @ [data']\<rparr>
      in case post data' of
           Inl e \<Rightarrow> (Returned (Some e), t1)
         | Inr result \<Rightarrow>
             if result \<noteq> [] \<and> messages_closed t1
             then (Panic ''send on closed channel'', t1)
             else (Returned None, t1\<lparr>messages := messages t1 @ result\<rparr>))"

text \<open>\<^verbatim>\<open>Connect\<close>; a nil \<^verbatim>\<open>authData\<close> is \<open>None\<close>.\<close>

definition lpc_Connect ::
  "(clientMessage \<Rightarrow> string + clientMessage list) \<Rightarrow> clientMessage option \<Rightarrow>
     longpollClientTransport \<Rightarrow> outcome \<times> longpollClientTransport" where
  "lpc_Connect post authData t =
     (let data = (case authData of None \<Rightarrow> Map.empty | Some d \<Rightarrow> d);
          data1 = data(''__type'' \<mapsto> AuthMessage);
          data2 = (if skip_auth t then Map.empty else data1)
      in lpc_Send post data2 t)"

definition lpc_Close :: "longpollClientTransport \<Rightarrow> outcome \<times> longpollClientTransport" where
  "lpc_Close t =
     (if messages_closed t then (Panic ''close of closed channel'', t)
      else (Returned None, t\<lparr>messages_closed := True\<rparr>))"

text \<open>
  \<^verbatim>\<open>Receive\<close> takes the next message off the channel; on an empty channel it waits, or
  returns the transport's error once the channel is closed.
\<close>

datatype received = Got clientMessage | Closed "string option" | Waits

definition lpc_Receive :: "longpollClientTransport \<Rightarrow> received \<times> longpollClientTransport" where
  "lpc_Receive t =
     (case messages t of
        [] \<Rightarrow> (if messages_closed t then (Closed (err t), t) else (Waits, t))
      | m # ms \<Rightarrow>
          (Got m, (t\<lparr>messages := ms\<rparr>)
                    \<lparr>token := (if Type m = AuthOKMessage then Token m else token t)\<rparr>))"

section \<open>Concrete inputs\<close>

text \<open>Servers, Hub states, connection states and frames on which the results are run.\<close>

definition srv_open :: Server where
  "srv_open = \<lparr>CanConnect = None, CanSubscribe = None\<rparr>"

definition srv_refusing :: Server where
  "srv_refusing = \<lparr>CanConnect = None, CanSubscribe = Some (\<lambda>auth channel. False)\<rparr>"

definition srv_picky :: Server where
  "srv_picky = \<lparr>CanConnect = None, CanSubscribe = Some (\<lambda>auth channel. channel \<noteq> ''test'')\<rparr>"

definition srv_closed :: Server where
  "srv_closed = \<lparr>CanConnect = Some (\<lambda>auth. False), CanSubscribe = None\<rparr>"

definition hub0 :: hub where
  "hub0 = \<lparr>clients = [], subscriptions = []\<rparr>"

definition hub1 :: hub where
  "hub1 = \<lparr>clients = [7], subscriptions = [(''test'', 7)]\<rparr>"

definition ws_st :: "hub \<Rightarrow> frame list \<Rightarrow> hub wsio" where
  "ws_st h fs = \<lparr>hubst = h, trace = [], conn_closed = False, inbox = fs, msg = Map.empty\<rparr>"

definition lp_st :: "hub \<Rightarrow> hub io" where
  "lp_st h = \<lparr>hubst = h, trace = []\<rparr>"

definition auth_msg :: clientMessage where
  "auth_msg = [''type'' \<mapsto> AuthMessage]"

definition subscribe_msg :: "string \<Rightarrow> clientMessage" where
  "subscribe_msg ch = [''type'' \<mapsto> SubscribeMessage, ''channel'' \<mapsto> ch]"

definition unsubscribe_msg :: "string \<Rightarrow> clientMessage" where
  "unsubscribe_msg ch = [''type'' \<mapsto> UnsubscribeMessage, ''channel'' \<mapsto> ch]"

definition bla_msg :: clientMessage where
  "bla_msg = [''type'' \<mapsto> ''bla'']"

definition lp_auth_msg :: clientMessage where
  "lp_auth_msg = [''__type'' \<mapsto> AuthMessage, ''__token'' \<mapsto> []]"

definition lp_subscribe_msg :: "string \<Rightarrow> clientMessage" where
  "lp_subscribe_msg ch =
     [''__type'' \<mapsto> SubscribeMessage, ''channel'' \<mapsto> ch, ''__token'' \<mapsto> ''tok-7'']"

definition lp_unsubscribe_msg :: "string \<Rightarrow> clientMessage" where
  "lp_unsubscribe_msg ch =
     [''__type'' \<mapsto> UnsubscribeMessage, ''channel'' \<mapsto> ch, ''__token'' \<mapsto> ''tok-7'']"

definition lp_bla_msg :: clientMessage where
  "lp_bla_msg = [''__type'' \<mapsto> ''bla'', ''__token'' \<mapsto> []]"

definition conn7 :: longpollConnection where
  "conn7 = \<lparr>conn_Token = ''tok-7'', conn_AuthData = lp_auth_msg\<rparr>"

definition post_ok :: "clientMessage \<Rightarrow> string + clientMessage list" where
  "post_ok req = Inr [[''__type'' \<mapsto> AuthOKMessage, ''__token'' \<mapsto> ''tok-7'']]"

definition ws_two :: "hub wsio" where
  "ws_two = ws_st hub1 [Msg (subscribe_msg ''other''), Msg (subscribe_msg ''test'')]"

definition ws_bla :: "hub wsio" where
  "ws_bla = ws_st hub1 [Msg bla_msg, Msg (subscribe_msg ''other'')]"

definition ws_unsub :: "hub wsio" where
  "ws_unsub = ws_st hub1 [Msg (unsubscribe_msg ''test'')]"

definition ws_refused_then_allowed :: "hub wsio" where
  "ws_refused_then_allowed =
     ws_st hub0 [Msg auth_msg, Msg (subscribe_msg ''test''), Msg (subscribe_msg ''other'')]"

definition ws_fresh :: "hub wsio" where
  "ws_fresh = ws_st hub0 [Bad ''invalid character'', Msg auth_msg]"

definition lpc_authed :: longpollClientTransport where
  "lpc_authed =
     \<lparr>skip_auth = False,
      messages = [[''__type'' \<mapsto> AuthOKMessage, ''__token'' \<mapsto> ''tok-7'']],
      messages_closed = False, err = None, token = [],
      posted = [[''__type'' \<mapsto> AuthMessage, ''__token'' \<mapsto> []]]\<rparr>"

definition lpc_pending :: longpollClientTransport where
  "lpc_pending =
     \<lparr>skip_auth = False,
      messages = [[''__type'' \<mapsto> SubscribeOKMessage, ''channel'' \<mapsto> ''test'']],
      messages_closed = False, err = None, token = ''tok-7'', posted = []\<rparr>"

section \<open>Basic facts\<close>

lemma msg_types_distinct: "distinct known_types"
  by (simp add: known_types_def AuthMessage_def AuthOKMessage_def AuthFailedMessage_def
      SubscribeMessage_def SubscribeOKMessage_def SubscribeErrorMessage_def
      UnsubscribeMessage_def UnsubscribeOKMessage_def MessageMessage_def UnknownMessage_def)

lemma types_neq:
  "SubscribeMessage \<noteq> UnsubscribeMessage" "UnsubscribeMessage \<noteq> SubscribeMessage"
  "AuthMessage \<noteq> SubscribeMessage" "SubscribeMessage \<noteq> AuthMessage"
  "AuthMessage \<noteq> UnsubscribeMessage" "UnsubscribeMessage \<noteq> AuthMessage"
  "AuthOKMessage \<noteq> SubscribeMessage" "AuthOKMessage \<noteq> AuthMessage"
  "UnknownMessage \<noteq> SubscribeMessage" "UnknownMessage \<noteq> AuthMessage"
  "UnknownMessage \<noteq> AuthOKMessage" "SubscribeMessage \<noteq> AuthOKMessage"
  using msg_types_distinct by (auto simp: known_types_def)

text \<open>
  For a recognised type other than UnknownMessage, \<open>Type\<close> answers it exactly when the
  \<^verbatim>\<open>__type\<close> entry holds it.
\<close>

lemma Type_eq_iff:
  "t \<in> set known_types \<Longrightarrow> t \<noteq> UnknownMessage \<Longrightarrow> Type m = t \<longleftrightarrow> at m ''__type'' = t"
  by (auto simp: Type_def)

lemma Type_Subscribe_iff: "Type m = SubscribeMessage \<longleftrightarrow> at m ''__type'' = SubscribeMessage"
  by (rule Type_eq_iff) (simp_all add: known_types_def types_neq [symmetric])

lemma Type_Auth_iff: "Type m = AuthMessage \<longleftrightarrow> at m ''__type'' = AuthMessage"
  by (rule Type_eq_iff) (simp_all add: known_types_def types_neq [symmetric])

lemma Type_AuthOK_iff: "Type m = AuthOKMessage \<longleftrightarrow> at m ''__type'' = AuthOKMessage"
  by (rule Type_eq_iff) (simp_all add: known_types_def types_neq [symmetric])

lemma since_self [simp]: "since st st = []"
  by (simp add: since_def)

lemma ws_Close_open:
  "\<not> conn_closed st \<Longrightarrow>
   ws_Close code m st =
     st\<lparr>trace := trace st @ [WriteMessage_Close (close_payload code m), ConnClose],
        conn_closed := True\<rparr>"
  by (simp add: ws_Close_def conn_write_def conn_Close_def emit_def)

lemma ws_Close_closed: "conn_closed st \<Longrightarrow> ws_Close code m st = st"
  by (simp add: ws_Close_def conn_write_def conn_Close_def)

text \<open>
  One pass on a stream that the handler has closed: whatever it reads, it writes nothing,
  and the stream stays closed. Every pass only adds events.
\<close>

lemma ws_iter_extends:
  "\<exists>es. trace (snd (ws_iter srv hs auth c st)) = trace st @ es
        \<and> (conn_closed st \<longrightarrow> wire es = [] \<and> conn_closed (snd (ws_iter srv hs auth c st)))"
  by (auto simp: ws_iter_def ReadJSON_def ws_Close_def conn_write_def conn_Close_def
      emit_def hub_call_def hub_send_def Let_def wire_def
      split: list.splits frame.splits option.splits)

text \<open>The loop, one pass at a time.\<close>

lemma ws_loop_Break:
  "ws_iter srv hs auth c st = (Break, st') \<Longrightarrow> ws_loop srv hs auth c st = st'"
  by (subst ws_loop.simps) simp

lemma ws_loop_Continue:
  "ws_iter srv hs auth c st = (Continue, st') \<Longrightarrow>
   ws_loop srv hs auth c st = ws_loop srv hs auth c st'"
  by (subst ws_loop.simps) simp

text \<open>The whole loop on a closed stream, by induction on its passes.\<close>

lemma ws_loop_extends:
  "\<exists>es. trace (ws_loop srv hs auth c st) = trace st @ es
        \<and> (conn_closed st \<longrightarrow> wire es = [] \<and> conn_closed (ws_loop srv hs auth c st))"
proof (induction srv hs auth c st rule: ws_loop.induct)
  case (1 srv hs auth c st)
  let ?st' = "snd (ws_iter srv hs auth c st)"
  obtain es where es: "trace ?st' = trace st @ es"
    and closed: "conn_closed st \<longrightarrow> wire es = [] \<and> conn_closed ?st'"
    using ws_iter_extends [of srv hs auth c st] by blast
  show ?case
  proof (cases "fst (ws_iter srv hs auth c st) = Break")
    case True
    then have "ws_loop srv hs auth c st = ?st'"
      by (subst ws_loop.simps) simp
    with es closed show ?thesis by auto
  next
    case False
    then have eq: "ws_loop srv hs auth c st = ws_loop srv hs auth c ?st'"
      by (subst ws_loop.simps) simp
    obtain es' where es': "trace (ws_loop srv hs auth c ?st') = trace ?st' @ es'"
      and closed': "conn_closed ?st' \<longrightarrow>
        wire es' = [] \<and> conn_closed (ws_loop srv hs auth c ?st')"
      using "1.IH" [OF False] by blast
    have "trace (ws_loop srv hs auth c st) = trace st @ (es @ es')"
      by (simp add: eq es es')
    moreover have "conn_closed st \<longrightarrow>
        wire (es @ es') = [] \<and> conn_closed (ws_loop srv hs auth c st)"
      using closed closed' by (simp add: eq wire_def)
    ultimately show ?thesis by blast
  qed
qed

text \<open>The passes of the loop that the results below are about.\<close>

lemma ws_iter_refused:
  assumes "\<not> conn_closed st" and "inbox st = Msg d # fs"
    and "at (msg st ++ d) ''type'' = SubscribeMessage"
    and "refuses_subscribe srv auth (at (msg st ++ d) ''channel'')"
  shows "ws_iter srv hs auth c st =
     (Continue, st\<lparr>trace := trace st @
        [WriteMessage_Close (close_payload 403 ''Channel refused''), ConnClose],
        conn_closed := True, inbox := fs, msg := msg st ++ d\<rparr>)"
  using assms by (simp add: ws_iter_def ReadJSON_def ws_Close_open Let_def)

lemma ws_iter_unexpected:
  assumes "\<not> conn_closed st" and "inbox st = Msg d # fs"
    and "at (msg st ++ d) ''type'' \<noteq> SubscribeMessage"
    and "at (msg st ++ d) ''type'' \<noteq> UnsubscribeMessage"
  shows "ws_iter srv hs auth c st =
     (Continue, st\<lparr>trace := trace st @
        [WriteMessage_Close (close_payload 400 ''Unexpected message''), ConnClose],
        conn_closed := True, inbox := fs, msg := msg st ++ d\<rparr>)"
  using assms by (simp add: ws_iter_def ReadJSON_def ws_Close_open Let_def)

lemma ws_iter_subscribe:
  assumes "\<not> conn_closed st" and "inbox st = Msg d # fs"
    and "at (msg st ++ d) ''type'' = SubscribeMessage"
    and "\<not> refuses_subscribe srv auth (at (msg st ++ d) ''channel'')"
  shows "since st (snd (ws_iter srv hs auth c st)) =
     [HubSend (Subscribe c (at (msg st ++ d) ''channel'')),
      DoneRecv (fst (hs (Subscribe c (at (msg st ++ d) ''channel'')) (hubst st))),
      WriteJSON (case fst (hs (Subscribe c (at (msg st ++ d) ''channel'')) (hubst st)) of
          Some e \<Rightarrow> [''type'' \<mapsto> SubscribeErrorMessage,
                     ''channel'' \<mapsto> at (msg st ++ d) ''channel'', ''error'' \<mapsto> e]
        | None \<Rightarrow> [''type'' \<mapsto> SubscribeOKMessage,
                   ''channel'' \<mapsto> at (msg st ++ d) ''channel''])]"
  using assms
  by (simp add: ws_iter_def ReadJSON_def Let_def hub_call_def conn_write_def since_def
      hub_send_def emit_def split: option.splits)

lemma ws_iter_unsubscribe:
  assumes "\<not> conn_closed st" and "inbox st = Msg d # fs"
    and "at (msg st ++ d) ''type'' = UnsubscribeMessage"
  shows "since st (snd (ws_iter srv hs auth c st)) =
     [HubSend (Unsubscribe c (at (msg st ++ d) ''channel'')),
      WriteJSON [''type'' \<mapsto> UnsubscribeOKMessage,
                 ''channel'' \<mapsto> at (msg st ++ d) ''channel'']]"
  using assms
  by (simp add: ws_iter_def ReadJSON_def Let_def conn_write_def since_def
      hub_send_def emit_def types_neq)


lemma Handle_subscribe:
  assumes "Type m = SubscribeMessage"
    and "\<not> refuses_subscribe srv (conn_AuthData conn) (at m ''channel'')"
  shows "since st (Handle srv hs c conn m st) =
     [HubSend (Subscribe c (at m ''channel'')),
      DoneRecv (fst (hs (Subscribe c (at m ''channel'')) (hubst st))),
      WriteBody (JSON [case fst (hs (Subscribe c (at m ''channel'')) (hubst st)) of
          Some e \<Rightarrow> [''__type'' \<mapsto> SubscribeErrorMessage,
                     ''channel'' \<mapsto> at m ''channel'', ''error'' \<mapsto> e]
        | None \<Rightarrow> [''__type'' \<mapsto> SubscribeOKMessage,
                   ''channel'' \<mapsto> at m ''channel'']])]"
  using assms
  by (simp add: Handle_def Reply_def hub_call_def since_def hub_send_def emit_def Let_def
      split: option.splits)

lemma Handle_default:
  assumes "Type m \<noteq> SubscribeMessage"
  shows "Handle srv hs c conn m st =
     st\<lparr>trace := trace st @
        [WriteHeader 400, WriteBody (Text (''Unexpected message'' @ [CHR 0x0A]))]\<rparr>"
  using assms by (simp add: Handle_def http_Error_def emit_def)

text \<open>What \<open>Handle\<close> emits and does to the Hub depends on the Hub's state only.\<close>

lemma Handle_trace_hub:
  "hubst st1 = hubst st2 \<Longrightarrow>
   since st1 (Handle srv hs c conn m st1) = since st2 (Handle srv hs c conn m st2)
   \<and> hubst (Handle srv hs c conn m st1) = hubst (Handle srv hs c conn m st2)"
  by (simp add: Handle_def Reply_def hub_call_def since_def hub_send_def emit_def
      http_Error_def Let_def split: option.splits)

text \<open>The concrete inputs, evaluated.\<close>

lemma example_types [simp]:
  "at (subscribe_msg ch) ''type'' = SubscribeMessage"
  "at (subscribe_msg ch) ''channel'' = ch"
  "at (unsubscribe_msg ch) ''type'' = UnsubscribeMessage"
  "at (unsubscribe_msg ch) ''channel'' = ch"
  "at auth_msg ''type'' = AuthMessage"
  "at bla_msg ''type'' = ''bla''"
  "at (lp_subscribe_msg ch) ''__type'' = SubscribeMessage"
  "at (lp_subscribe_msg ch) ''channel'' = ch"
  "at (lp_unsubscribe_msg ch) ''__type'' = UnsubscribeMessage"
  "at lp_auth_msg ''__type'' = AuthMessage"
  "at lp_bla_msg ''__type'' = ''bla''"
  by (simp_all add: at_def subscribe_msg_def unsubscribe_msg_def auth_msg_def bla_msg_def
      lp_subscribe_msg_def lp_unsubscribe_msg_def lp_auth_msg_def lp_bla_msg_def)

lemma bla_neq [simp]:
  "''bla'' \<noteq> SubscribeMessage" "''bla'' \<noteq> UnsubscribeMessage" "''bla'' \<noteq> AuthMessage"
  by (simp_all add: SubscribeMessage_def UnsubscribeMessage_def AuthMessage_def)

lemma example_policies [simp]:
  "refuses_subscribe srv_refusing a ch" "\<not> refuses_subscribe srv_open a ch"
  "\<not> refuses_connect srv_refusing a" "\<not> refuses_connect srv_open a"
  "refuses_connect srv_closed a"
  "refuses_subscribe srv_picky a ch \<longleftrightarrow> ch = ''test''" "\<not> refuses_connect srv_picky a"
  by (simp_all add: refuses_subscribe_def refuses_connect_def srv_refusing_def srv_open_def
      srv_closed_def srv_picky_def)

lemma example_states [simp]:
  "\<not> conn_closed (ws_st h fs)" "inbox (ws_st h fs) = fs" "msg (ws_st h fs) = Map.empty"
  "hubst (ws_st h fs) = h" "trace (ws_st h fs) = []"
  "hubst (lp_st h) = h" "trace (lp_st h) = []"
  by (simp_all add: ws_st_def lp_st_def)

lemma example_conns [simp]:
  "\<not> conn_closed ws_two" "msg ws_two = Map.empty" "hubst ws_two = hub1"
  "inbox ws_two = [Msg (subscribe_msg ''other''), Msg (subscribe_msg ''test'')]"
  "\<not> conn_closed ws_bla" "msg ws_bla = Map.empty" "hubst ws_bla = hub1"
  "inbox ws_bla = [Msg bla_msg, Msg (subscribe_msg ''other'')]"
  "\<not> conn_closed ws_unsub" "msg ws_unsub = Map.empty" "hubst ws_unsub = hub1"
  "inbox ws_unsub = [Msg (unsubscribe_msg ''test'')]"
  "\<not> conn_closed ws_fresh" "hubst ws_fresh = hub0"
  "inbox ws_fresh = [Bad ''invalid character'', Msg auth_msg]"
  by (simp_all add: ws_two_def ws_bla_def ws_unsub_def ws_fresh_def)

section \<open>Socket transport: a refused subscription\<close>

text \<open>
  C1 (as amended). When the read loop of an authenticated socket connection reads a
  SubscribeMessage for a channel that CanSubscribe refuses, the server writes no
  SubscribeErrorMessage: it writes a close frame with code 403 and the text
  "Channel refused" and tears the stream down, without sending anything to the Hub for
  the request. The refusal does not leave the read loop, which goes on with the frames
  that are left, but the connection is of no more use to the client: the stream stays
  closed, and in the rest of the loop nothing more is written to it.
\<close>

theorem ws_refusal_closes:
  assumes "\<not> conn_closed st" and "inbox st = Msg d # fs"
    and "at (msg st ++ d) ''type'' = SubscribeMessage"
    and "refuses_subscribe srv auth (at (msg st ++ d) ''channel'')"
  shows "since st (snd (ws_iter srv hs auth c st)) =
           [WriteMessage_Close (close_payload 403 ''Channel refused''), ConnClose]
       \<and> hubst (snd (ws_iter srv hs auth c st)) = hubst st
       \<and> fst (ws_iter srv hs auth c st) = Continue
       \<and> inbox (snd (ws_iter srv hs auth c st)) = fs
       \<and> ws_loop srv hs auth c st = ws_loop srv hs auth c (snd (ws_iter srv hs auth c st))
       \<and> conn_closed (ws_loop srv hs auth c st)
       \<and> wire (since st (ws_loop srv hs auth c st)) =
           [WriteMessage_Close (close_payload 403 ''Channel refused''), ConnClose]"
proof -
  let ?st' = "st\<lparr>trace := trace st @
        [WriteMessage_Close (close_payload 403 ''Channel refused''), ConnClose],
        conn_closed := True, inbox := fs, msg := msg st ++ d\<rparr>"
  have iter: "ws_iter srv hs auth c st = (Continue, ?st')"
    using assms by (rule ws_iter_refused)
  then have loop: "ws_loop srv hs auth c st = ws_loop srv hs auth c ?st'"
    by (rule ws_loop_Continue)
  obtain es where es: "trace (ws_loop srv hs auth c ?st') = trace ?st' @ es"
    and quiet: "wire es = []" and closed: "conn_closed (ws_loop srv hs auth c ?st')"
    using ws_loop_extends [of srv hs auth c ?st'] by auto
  have "since st (ws_loop srv hs auth c st) =
      [WriteMessage_Close (close_payload 403 ''Channel refused''), ConnClose] @ es"
    by (simp add: loop es since_def)
  then have "wire (since st (ws_loop srv hs auth c st)) =
      [WriteMessage_Close (close_payload 403 ''Channel refused''), ConnClose]"
    using quiet by (simp add: wire_def)
  then show ?thesis
    using closed by (simp add: iter loop since_def)
qed

theorem ws_refusal_closes_witness:
  "(\<not> conn_closed ws_two
    \<and> inbox ws_two = Msg (subscribe_msg ''other'') # [Msg (subscribe_msg ''test'')]
    \<and> at (msg ws_two ++ subscribe_msg ''other'') ''type'' = SubscribeMessage
    \<and> refuses_subscribe srv_refusing auth_msg
         (at (msg ws_two ++ subscribe_msg ''other'') ''channel''))
   \<and> (since ws_two (snd (ws_iter srv_refusing hub_handle auth_msg 7 ws_two)) =
           [WriteMessage_Close (close_payload 403 ''Channel refused''), ConnClose]
       \<and> hubst (snd (ws_iter srv_refusing hub_handle auth_msg 7 ws_two)) = hubst ws_two
       \<and> fst (ws_iter srv_refusing hub_handle auth_msg 7 ws_two) = Continue
       \<and> inbox (snd (ws_iter srv_refusing hub_handle auth_msg 7 ws_two)) =
           [Msg (subscribe_msg ''test'')]
       \<and> ws_loop srv_refusing hub_handle auth_msg 7 ws_two =
           ws_loop srv_refusing hub_handle auth_msg 7
             (snd (ws_iter srv_refusing hub_handle auth_msg 7 ws_two))
       \<and> conn_closed (ws_loop srv_refusing hub_handle auth_msg 7 ws_two)
       \<and> wire (since ws_two (ws_loop srv_refusing hub_handle auth_msg 7 ws_two)) =
           [WriteMessage_Close (close_payload 403 ''Channel refused''), ConnClose])"
proof -
  have h1: "\<not> conn_closed ws_two" by simp
  have h2: "inbox ws_two = Msg (subscribe_msg ''other'') # [Msg (subscribe_msg ''test'')]"
    by simp
  have h3: "at (msg ws_two ++ subscribe_msg ''other'') ''type'' = SubscribeMessage"
    by simp
  have h4: "refuses_subscribe srv_refusing auth_msg
         (at (msg ws_two ++ subscribe_msg ''other'') ''channel'')"
    by simp
  show ?thesis
    by (rule conjI [OF conjI [OF h1 conjI [OF h2 conjI [OF h3 h4]]]
          ws_refusal_closes [OF h1 h2 h3 h4]])
qed

text \<open>
  The claim as written fails on a run of \<open>ws_handshake\<close> against a server that refuses
  the channel "test" only. The refused request is answered by the close frame and by no
  message. The request for "other", which the server had received as well, is still read
  and reaches the Hub, but its SubscribeOK is never written: after the close frame the
  client gets nothing.
\<close>

theorem ws_refusal_counterexample:
  "trace (ws_handshake srv_picky hub_handle None 7 ws_refused_then_allowed) =
     [WriteJSON [''type'' \<mapsto> AuthOKMessage], HubSend (NewClient 7),
      WriteMessage_Close (close_payload 403 ''Channel refused''), ConnClose,
      HubSend (Subscribe 7 ''other''), DoneRecv None,
      HubSend (ClientDisconnect 7)]"
proof -
  let ?st0 = "\<lparr>hubst = \<lparr>clients = [7], subscriptions = []\<rparr>,
      trace = [WriteJSON [''type'' \<mapsto> AuthOKMessage], HubSend (NewClient 7)],
      conn_closed = False,
      inbox = [Msg (subscribe_msg ''test''), Msg (subscribe_msg ''other'')],
      msg = Map.empty\<rparr>"
  let ?st1 = "\<lparr>hubst = \<lparr>clients = [7], subscriptions = []\<rparr>,
      trace = [WriteJSON [''type'' \<mapsto> AuthOKMessage], HubSend (NewClient 7),
        WriteMessage_Close (close_payload 403 ''Channel refused''), ConnClose],
      conn_closed = True, inbox = [Msg (subscribe_msg ''other'')],
      msg = subscribe_msg ''test''\<rparr>"
  let ?st2 = "\<lparr>hubst = \<lparr>clients = [7], subscriptions = [(''other'', 7)]\<rparr>,
      trace = [WriteJSON [''type'' \<mapsto> AuthOKMessage], HubSend (NewClient 7),
        WriteMessage_Close (close_payload 403 ''Channel refused''), ConnClose,
        HubSend (Subscribe 7 ''other''), DoneRecv None],
      conn_closed = True, inbox = [],
      msg = subscribe_msg ''test'' ++ subscribe_msg ''other''\<rparr>"
  have 1: "ws_iter srv_picky hub_handle auth_msg 7 ?st0 = (Continue, ?st1)"
    by (simp add: ws_iter_def ReadJSON_def ws_Close_def conn_write_def conn_Close_def
        emit_def Let_def)
  have 2: "ws_iter srv_picky hub_handle auth_msg 7 ?st1 = (Continue, ?st2)"
    by (simp add: ws_iter_def ReadJSON_def conn_write_def hub_call_def hub_send_def
        emit_def Let_def List.insert_def at_def map_add_def subscribe_msg_def)
  have 3: "ws_iter srv_picky hub_handle auth_msg 7 ?st2 = (Break, ?st2)"
    by (simp add: ws_iter_def ReadJSON_def ws_Close_def conn_write_def conn_Close_def)
  have loop: "ws_loop srv_picky hub_handle auth_msg 7 ?st0 = ?st2"
    by (simp add: ws_loop_Continue [OF 1] ws_loop_Continue [OF 2] ws_loop_Break [OF 3])
  show ?thesis
    by (simp add: ws_handshake_def ws_refused_then_allowed_def ws_st_def hub0_def
        ReadJSON_def conn_write_def hub_send_def emit_def List.insert_def conn_Close_def
        Let_def auth_msg_def [symmetric] loop)
qed

section \<open>The policy check comes before any mutation\<close>



section \<open>Waiting for the Hub\<close>

text \<open>
  C6 (as amended). A Subscribe command that a transport sends to the Hub is followed by a
  receive from the command's \<^verbatim>\<open>Done\<close> channel, and the reply to the client
  (SubscribeOK, or SubscribeError with the Hub's error text) is written only after that
  receive: on both transports the request emits exactly the send, the receive and the
  reply, in this order. An Unsubscribe command is not waited for: the socket transport
  sends it and writes UnsubscribeOK at once.
\<close>

theorem subscribe_waits_unsubscribe_does_not:
  assumes "\<not> conn_closed st" and "inbox st = Msg d # fs"
    and "at (msg st ++ d) ''type'' = SubscribeMessage"
    and "\<not> refuses_subscribe srv auth (at (msg st ++ d) ''channel'')"
    and "at m ''__type'' = SubscribeMessage"
    and "\<not> refuses_subscribe srv' (conn_AuthData conn) (at m ''channel'')"
    and "\<not> conn_closed ust" and "inbox ust = Msg ud # ufs"
    and "at (msg ust ++ ud) ''type'' = UnsubscribeMessage"
  shows "since st (snd (ws_iter srv hs auth c st)) =
     [HubSend (Subscribe c (at (msg st ++ d) ''channel'')),
      DoneRecv (fst (hs (Subscribe c (at (msg st ++ d) ''channel'')) (hubst st))),
      WriteJSON (case fst (hs (Subscribe c (at (msg st ++ d) ''channel'')) (hubst st)) of
          Some e \<Rightarrow> [''type'' \<mapsto> SubscribeErrorMessage,
                     ''channel'' \<mapsto> at (msg st ++ d) ''channel'', ''error'' \<mapsto> e]
        | None \<Rightarrow> [''type'' \<mapsto> SubscribeOKMessage,
                   ''channel'' \<mapsto> at (msg st ++ d) ''channel''])]
   \<and> since lst (Handle srv' hs' c' conn m lst) =
     [HubSend (Subscribe c' (at m ''channel'')),
      DoneRecv (fst (hs' (Subscribe c' (at m ''channel'')) (hubst lst))),
      WriteBody (JSON [case fst (hs' (Subscribe c' (at m ''channel'')) (hubst lst)) of
          Some e \<Rightarrow> [''__type'' \<mapsto> SubscribeErrorMessage,
                     ''channel'' \<mapsto> at m ''channel'', ''error'' \<mapsto> e]
        | None \<Rightarrow> [''__type'' \<mapsto> SubscribeOKMessage,
                   ''channel'' \<mapsto> at m ''channel'']])]
   \<and> since ust (snd (ws_iter usrv uhs uauth uc ust)) =
     [HubSend (Unsubscribe uc (at (msg ust ++ ud) ''channel'')),
      WriteJSON [''type'' \<mapsto> UnsubscribeOKMessage,
                 ''channel'' \<mapsto> at (msg ust ++ ud) ''channel'']]"
proof -
  have "Type m = SubscribeMessage"
    using assms(5) by (simp add: Type_Subscribe_iff)
  then show ?thesis
    using ws_iter_subscribe [OF assms(1-4)] Handle_subscribe [OF _ assms(6)]
      ws_iter_unsubscribe [OF assms(7-9)]
    by simp
qed

theorem subscribe_waits_unsubscribe_does_not_witness:
  "(\<not> conn_closed ws_two
    \<and> inbox ws_two = Msg (subscribe_msg ''other'') # [Msg (subscribe_msg ''test'')]
    \<and> at (msg ws_two ++ subscribe_msg ''other'') ''type'' = SubscribeMessage
    \<and> \<not> refuses_subscribe srv_open auth_msg
         (at (msg ws_two ++ subscribe_msg ''other'') ''channel'')
    \<and> at (lp_subscribe_msg ''other'') ''__type'' = SubscribeMessage
    \<and> \<not> refuses_subscribe srv_open (conn_AuthData conn7)
         (at (lp_subscribe_msg ''other'') ''channel'')
    \<and> \<not> conn_closed ws_unsub
    \<and> inbox ws_unsub = Msg (unsubscribe_msg ''test'') # []
    \<and> at (msg ws_unsub ++ unsubscribe_msg ''test'') ''type'' = UnsubscribeMessage)
   \<and> (since ws_two (snd (ws_iter srv_open hub_handle auth_msg 7 ws_two)) =
     [HubSend (Subscribe 7 (at (msg ws_two ++ subscribe_msg ''other'') ''channel'')),
      DoneRecv (fst (hub_handle
         (Subscribe 7 (at (msg ws_two ++ subscribe_msg ''other'') ''channel''))
         (hubst ws_two))),
      WriteJSON (case fst (hub_handle
         (Subscribe 7 (at (msg ws_two ++ subscribe_msg ''other'') ''channel''))
         (hubst ws_two)) of
          Some e \<Rightarrow> [''type'' \<mapsto> SubscribeErrorMessage,
                     ''channel'' \<mapsto> at (msg ws_two ++ subscribe_msg ''other'') ''channel'',
                     ''error'' \<mapsto> e]
        | None \<Rightarrow> [''type'' \<mapsto> SubscribeOKMessage,
                   ''channel'' \<mapsto> at (msg ws_two ++ subscribe_msg ''other'') ''channel''])]
   \<and> since (lp_st hub1)
       (Handle srv_open hub_handle 7 conn7 (lp_subscribe_msg ''other'') (lp_st hub1)) =
     [HubSend (Subscribe 7 (at (lp_subscribe_msg ''other'') ''channel'')),
      DoneRecv (fst (hub_handle (Subscribe 7 (at (lp_subscribe_msg ''other'') ''channel''))
         (hubst (lp_st hub1)))),
      WriteBody (JSON [case fst (hub_handle
         (Subscribe 7 (at (lp_subscribe_msg ''other'') ''channel'')) (hubst (lp_st hub1))) of
          Some e \<Rightarrow> [''__type'' \<mapsto> SubscribeErrorMessage,
                     ''channel'' \<mapsto> at (lp_subscribe_msg ''other'') ''channel'',
                     ''error'' \<mapsto> e]
        | None \<Rightarrow> [''__type'' \<mapsto> SubscribeOKMessage,
                   ''channel'' \<mapsto> at (lp_subscribe_msg ''other'') ''channel'']])]
   \<and> since ws_unsub (snd (ws_iter srv_open hub_handle auth_msg 7 ws_unsub)) =
     [HubSend (Unsubscribe 7 (at (msg ws_unsub ++ unsubscribe_msg ''test'') ''channel'')),
      WriteJSON [''type'' \<mapsto> UnsubscribeOKMessage,
                 ''channel'' \<mapsto> at (msg ws_unsub ++ unsubscribe_msg ''test'') ''channel'']])"
proof -
  have h1: "\<not> conn_closed ws_two" by simp
  have h2: "inbox ws_two = Msg (subscribe_msg ''other'') # [Msg (subscribe_msg ''test'')]"
    by simp
  have h3: "at (msg ws_two ++ subscribe_msg ''other'') ''type'' = SubscribeMessage"
    by simp
  have h4: "\<not> refuses_subscribe srv_open auth_msg
         (at (msg ws_two ++ subscribe_msg ''other'') ''channel'')"
    by simp
  have h5: "at (lp_subscribe_msg ''other'') ''__type'' = SubscribeMessage"
    by simp
  have h6: "\<not> refuses_subscribe srv_open (conn_AuthData conn7)
         (at (lp_subscribe_msg ''other'') ''channel'')"
    by simp
  have h7: "\<not> conn_closed ws_unsub" by simp
  have h8: "inbox ws_unsub = Msg (unsubscribe_msg ''test'') # []" by simp
  have h9: "at (msg ws_unsub ++ unsubscribe_msg ''test'') ''type'' = UnsubscribeMessage"
    by simp
  show ?thesis
    by (rule conjI [OF conjI [OF h1 conjI [OF h2 conjI [OF h3 conjI [OF h4 conjI [OF h5
          conjI [OF h6 conjI [OF h7 conjI [OF h8 h9]]]]]]]]
          subscribe_waits_unsubscribe_does_not [OF h1 h2 h3 h4 h5 h6 h7 h8 h9]])
qed

text \<open>
  The claim as written fails for Unsubscribe: on the socket transport the UnsubscribeOK
  reply follows the send directly, and nothing is received from \<^verbatim>\<open>Done\<close> in between.
\<close>

theorem unsubscribe_wait_counterexample:
  "since ws_unsub (snd (ws_iter srv_open hub_handle auth_msg 7 ws_unsub)) =
     [HubSend (Unsubscribe 7 ''test''),
      WriteJSON [''type'' \<mapsto> UnsubscribeOKMessage, ''channel'' \<mapsto> ''test'']]"
proof -
  have "since ws_unsub (snd (ws_iter srv_open hub_handle auth_msg 7 ws_unsub)) =
     [HubSend (Unsubscribe 7 (at (msg ws_unsub ++ unsubscribe_msg ''test'') ''channel'')),
      WriteJSON [''type'' \<mapsto> UnsubscribeOKMessage,
                 ''channel'' \<mapsto> at (msg ws_unsub ++ unsubscribe_msg ''test'') ''channel'']]"
    by (rule ws_iter_unsubscribe) simp_all
  then show ?thesis by simp
qed

section \<open>Unexpected messages\<close>

text \<open>
  C7. The source on the socket transport, at a message of unexpected type followed by a
  Subscribe request that the server has received as well: the close frame 400
  "Unexpected message" is written and the stream torn down, but the loop is not left.
  The next frame is read and handled: the Subscribe command reaches the Hub and the
  connection is subscribed to "other".
\<close>

theorem unexpected_message_loop_goes_on:
  "since ws_bla (ws_loop srv_open hub_handle auth_msg 7 ws_bla) =
     [WriteMessage_Close (close_payload 400 ''Unexpected message''), ConnClose,
      HubSend (Subscribe 7 ''other''), DoneRecv None]
   \<and> subscriptions (hubst (ws_loop srv_open hub_handle auth_msg 7 ws_bla)) =
     [(''other'', 7), (''test'', 7)]
   \<and> inbox (ws_loop srv_open hub_handle auth_msg 7 ws_bla) = []"
proof -
  let ?st0 = "\<lparr>hubst = hub1, trace = [], conn_closed = False,
      inbox = [Msg bla_msg, Msg (subscribe_msg ''other'')], msg = Map.empty\<rparr>"
  let ?st1 = "\<lparr>hubst = hub1,
      trace = [WriteMessage_Close (close_payload 400 ''Unexpected message''), ConnClose],
      conn_closed = True, inbox = [Msg (subscribe_msg ''other'')], msg = bla_msg\<rparr>"
  let ?st2 = "\<lparr>hubst = \<lparr>clients = [7], subscriptions = [(''other'', 7), (''test'', 7)]\<rparr>,
      trace = [WriteMessage_Close (close_payload 400 ''Unexpected message''), ConnClose,
        HubSend (Subscribe 7 ''other''), DoneRecv None],
      conn_closed = True, inbox = [], msg = bla_msg ++ subscribe_msg ''other''\<rparr>"
  have 1: "ws_iter srv_open hub_handle auth_msg 7 ?st0 = (Continue, ?st1)"
    by (simp add: ws_iter_def ReadJSON_def ws_Close_def conn_write_def conn_Close_def
        emit_def Let_def)
  have 2: "ws_iter srv_open hub_handle auth_msg 7 ?st1 = (Continue, ?st2)"
    by (simp add: ws_iter_def ReadJSON_def conn_write_def hub_call_def hub_send_def
        emit_def Let_def hub1_def List.insert_def at_def map_add_def subscribe_msg_def)
  have 3: "ws_iter srv_open hub_handle auth_msg 7 ?st2 = (Break, ?st2)"
    by (simp add: ws_iter_def ReadJSON_def ws_Close_def conn_write_def conn_Close_def)
  have "ws_loop srv_open hub_handle auth_msg 7 ws_bla = ?st2"
    by (simp add: ws_bla_def ws_st_def ws_loop_Continue [OF 1] ws_loop_Continue [OF 2]
        ws_loop_Break [OF 3])
  then show ?thesis
    by (simp add: since_def ws_bla_def ws_st_def)
qed

section \<open>Socket transport: a failed first read\<close>

text \<open>
  C9. After a successful upgrade, when reading or decoding the first frame fails, the
  server writes the close frame 401 "Auth expected", tears the stream down and sends
  nothing to the Hub, so the connection is never registered. A well-formed first message
  that is not an AuthMessage has the same outcome: the same events, the same Hub state.
\<close>

theorem first_read_error:
  assumes "\<not> conn_closed st" and "fst (ReadJSON Map.empty st) = Inl e"
    and "at d ''type'' \<noteq> AuthMessage"
  shows "since st (ws_handshake srv hs None c st) =
            [WriteMessage_Close (close_payload 401 ''Auth expected''), ConnClose]
       \<and> conn_closed (ws_handshake srv hs None c st)
       \<and> hub_cmds (since st (ws_handshake srv hs None c st)) = []
       \<and> hubst (ws_handshake srv hs None c st) = hubst st
       \<and> since (st\<lparr>inbox := Msg d # fs\<rparr>)
            (ws_handshake srv hs None c (st\<lparr>inbox := Msg d # fs\<rparr>)) =
           since st (ws_handshake srv hs None c st)
       \<and> hubst (ws_handshake srv hs None c (st\<lparr>inbox := Msg d # fs\<rparr>)) =
           hubst (ws_handshake srv hs None c st)"
proof -
  obtain st1 where r: "ReadJSON Map.empty st = (Inl e, st1)"
    using assms(2) by (cases "ReadJSON Map.empty st") simp
  have st1: "\<not> conn_closed st1 \<and> trace st1 = trace st \<and> hubst st1 = hubst st"
    using r assms(1) by (auto simp: ReadJSON_def split: list.splits frame.splits)
  have err: "ws_handshake srv hs None c st = ws_Close 401 ''Auth expected'' st1"
    by (simp add: ws_handshake_def r)
  have other: "ws_handshake srv hs None c (st\<lparr>inbox := Msg d # fs\<rparr>) =
      ws_Close 401 ''Auth expected'' (st\<lparr>inbox := fs\<rparr>)"
    using assms(1,3) by (simp add: ws_handshake_def ReadJSON_def)
  show ?thesis
    using st1 assms(1) by (simp add: err other ws_Close_open since_def)
qed

theorem first_read_error_witness:
  "(\<not> conn_closed ws_fresh
    \<and> fst (ReadJSON Map.empty ws_fresh) = Inl ''invalid character''
    \<and> at bla_msg ''type'' \<noteq> AuthMessage)
   \<and> (since ws_fresh (ws_handshake srv_open hub_handle None 7 ws_fresh) =
            [WriteMessage_Close (close_payload 401 ''Auth expected''), ConnClose]
       \<and> conn_closed (ws_handshake srv_open hub_handle None 7 ws_fresh)
       \<and> hub_cmds (since ws_fresh (ws_handshake srv_open hub_handle None 7 ws_fresh)) = []
       \<and> hubst (ws_handshake srv_open hub_handle None 7 ws_fresh) = hubst ws_fresh
       \<and> since (ws_fresh\<lparr>inbox := Msg bla_msg # []\<rparr>)
            (ws_handshake srv_open hub_handle None 7 (ws_fresh\<lparr>inbox := Msg bla_msg # []\<rparr>)) =
           since ws_fresh (ws_handshake srv_open hub_handle None 7 ws_fresh)
       \<and> hubst (ws_handshake srv_open hub_handle None 7
                  (ws_fresh\<lparr>inbox := Msg bla_msg # []\<rparr>)) =
           hubst (ws_handshake srv_open hub_handle None 7 ws_fresh))"
proof -
  have h1: "\<not> conn_closed ws_fresh" by simp
  have h2: "fst (ReadJSON Map.empty ws_fresh) = Inl ''invalid character''"
    by (simp add: ReadJSON_def)
  have h3: "at bla_msg ''type'' \<noteq> AuthMessage" by simp
  show ?thesis
    by (rule conjI [OF conjI [OF h1 conjI [OF h2 h3]] first_read_error [OF h1 h2 h3]])
qed

section \<open>Long-poll transport: the handshake\<close>

lemma example_Types [simp]:
  "Type (lp_subscribe_msg ch) = SubscribeMessage"
  "Type (lp_unsubscribe_msg ch) = UnsubscribeMessage"
  "Type lp_auth_msg = AuthMessage"
  by (simp_all add: Type_def known_types_def)

text \<open>
  C3. The three outcomes of a long-poll handshake. A body whose \<^verbatim>\<open>__type\<close> is not
  AuthMessage: status 401, the one-element array with AuthFailedMessage and reason
  "Auth expected", nothing sent to the Hub. An AuthMessage that CanConnect refuses: the
  same with reason "Unauthorized". Otherwise: status 200, the one-element array with
  AuthOKMessage and the connection's token (the value drawn from the generator for this
  connection), and the connection is sent to the Hub on \<^verbatim>\<open>NewClient\<close>.
\<close>

theorem longpoll_handshake_outcomes:
  assumes "at a1 ''__type'' \<noteq> AuthMessage"
    and "at a2 ''__type'' = AuthMessage" and "refuses_connect srv2 a2"
    and "at a3 ''__type'' = AuthMessage" and "\<not> refuses_connect srv3 a3"
  shows "(fst (newLongpollConnection srv1 hs tok c a1 st) = Inl ''Auth expected''
        \<and> resp_status (since st (snd (newLongpollConnection srv1 hs tok c a1 st))) = Some 401
        \<and> resp_body (since st (snd (newLongpollConnection srv1 hs tok c a1 st))) =
            [JSON [[''__type'' \<mapsto> AuthFailedMessage, ''reason'' \<mapsto> ''Auth expected'']]]
        \<and> hub_cmds (since st (snd (newLongpollConnection srv1 hs tok c a1 st))) = []
        \<and> hubst (snd (newLongpollConnection srv1 hs tok c a1 st)) = hubst st)
       \<and> (fst (newLongpollConnection srv2 hs tok c a2 st) = Inl ''Unauthorized''
        \<and> resp_status (since st (snd (newLongpollConnection srv2 hs tok c a2 st))) = Some 401
        \<and> resp_body (since st (snd (newLongpollConnection srv2 hs tok c a2 st))) =
            [JSON [[''__type'' \<mapsto> AuthFailedMessage, ''reason'' \<mapsto> ''Unauthorized'']]]
        \<and> hub_cmds (since st (snd (newLongpollConnection srv2 hs tok c a2 st))) = []
        \<and> hubst (snd (newLongpollConnection srv2 hs tok c a2 st)) = hubst st)
       \<and> (fst (newLongpollConnection srv3 hs tok c a3 st) =
            Inr \<lparr>conn_Token = tok, conn_AuthData = a3\<rparr>
        \<and> resp_status (since st (snd (newLongpollConnection srv3 hs tok c a3 st))) = Some 200
        \<and> resp_body (since st (snd (newLongpollConnection srv3 hs tok c a3 st))) =
            [JSON [[''__type'' \<mapsto> AuthOKMessage, ''__token'' \<mapsto> tok]]]
        \<and> hub_cmds (since st (snd (newLongpollConnection srv3 hs tok c a3 st))) =
            [NewClient c]
        \<and> hubst (snd (newLongpollConnection srv3 hs tok c a3 st)) =
            snd (hs (NewClient c) (hubst st)))"
proof -
  have t1: "Type a1 \<noteq> AuthMessage" and t2: "Type a2 = AuthMessage"
    and t3: "Type a3 = AuthMessage"
    using assms(1,2,4) by (simp_all add: Type_Auth_iff)
  have first: "newLongpollConnection srv1 hs tok c a1 st =
      (Inl ''Auth expected'', st\<lparr>trace := trace st @ [WriteHeader 401,
         WriteBody (JSON [[''__type'' \<mapsto> AuthFailedMessage,
           ''reason'' \<mapsto> ''Auth expected'']])]\<rparr>)"
    using t1 by (simp add: newLongpollConnection_def lp_handshake_def Reply_def emit_def)
  have second: "newLongpollConnection srv2 hs tok c a2 st =
      (Inl ''Unauthorized'', st\<lparr>trace := trace st @ [WriteHeader 401,
         WriteBody (JSON [[''__type'' \<mapsto> AuthFailedMessage,
           ''reason'' \<mapsto> ''Unauthorized'']])]\<rparr>)"
    using t2 assms(3)
    by (simp add: newLongpollConnection_def lp_handshake_def Reply_def emit_def)
  have third: "newLongpollConnection srv3 hs tok c a3 st =
      (Inr \<lparr>conn_Token = tok, conn_AuthData = a3\<rparr>,
       st\<lparr>hubst := snd (hs (NewClient c) (hubst st)),
          trace := trace st @ [WriteBody (JSON [[''__type'' \<mapsto> AuthOKMessage,
            ''__token'' \<mapsto> tok]]), HubSend (NewClient c)]\<rparr>)"
    using t3 assms(5)
    by (simp add: newLongpollConnection_def lp_handshake_def hub_send_def emit_def)
  show ?thesis
    by (simp add: first second third since_def)
qed

theorem longpoll_handshake_outcomes_witness:
  "(at lp_bla_msg ''__type'' \<noteq> AuthMessage
    \<and> at lp_auth_msg ''__type'' = AuthMessage \<and> refuses_connect srv_closed lp_auth_msg
    \<and> at lp_auth_msg ''__type'' = AuthMessage \<and> \<not> refuses_connect srv_open lp_auth_msg)
   \<and> ((fst (newLongpollConnection srv_open hub_handle ''tok-7'' 7 lp_bla_msg (lp_st hub0)) =
            Inl ''Auth expected''
        \<and> resp_status (since (lp_st hub0) (snd (newLongpollConnection srv_open hub_handle
             ''tok-7'' 7 lp_bla_msg (lp_st hub0)))) = Some 401
        \<and> resp_body (since (lp_st hub0) (snd (newLongpollConnection srv_open hub_handle
             ''tok-7'' 7 lp_bla_msg (lp_st hub0)))) =
            [JSON [[''__type'' \<mapsto> AuthFailedMessage, ''reason'' \<mapsto> ''Auth expected'']]]
        \<and> hub_cmds (since (lp_st hub0) (snd (newLongpollConnection srv_open hub_handle
             ''tok-7'' 7 lp_bla_msg (lp_st hub0)))) = []
        \<and> hubst (snd (newLongpollConnection srv_open hub_handle ''tok-7'' 7 lp_bla_msg
             (lp_st hub0))) = hubst (lp_st hub0))
       \<and> (fst (newLongpollConnection srv_closed hub_handle ''tok-7'' 7 lp_auth_msg
             (lp_st hub0)) = Inl ''Unauthorized''
        \<and> resp_status (since (lp_st hub0) (snd (newLongpollConnection srv_closed hub_handle
             ''tok-7'' 7 lp_auth_msg (lp_st hub0)))) = Some 401
        \<and> resp_body (since (lp_st hub0) (snd (newLongpollConnection srv_closed hub_handle
             ''tok-7'' 7 lp_auth_msg (lp_st hub0)))) =
            [JSON [[''__type'' \<mapsto> AuthFailedMessage, ''reason'' \<mapsto> ''Unauthorized'']]]
        \<and> hub_cmds (since (lp_st hub0) (snd (newLongpollConnection srv_closed hub_handle
             ''tok-7'' 7 lp_auth_msg (lp_st hub0)))) = []
        \<and> hubst (snd (newLongpollConnection srv_closed hub_handle ''tok-7'' 7 lp_auth_msg
             (lp_st hub0))) = hubst (lp_st hub0))
       \<and> (fst (newLongpollConnection srv_open hub_handle ''tok-7'' 7 lp_auth_msg
             (lp_st hub0)) = Inr \<lparr>conn_Token = ''tok-7'', conn_AuthData = lp_auth_msg\<rparr>
        \<and> resp_status (since (lp_st hub0) (snd (newLongpollConnection srv_open hub_handle
             ''tok-7'' 7 lp_auth_msg (lp_st hub0)))) = Some 200
        \<and> resp_body (since (lp_st hub0) (snd (newLongpollConnection srv_open hub_handle
             ''tok-7'' 7 lp_auth_msg (lp_st hub0)))) =
            [JSON [[''__type'' \<mapsto> AuthOKMessage, ''__token'' \<mapsto> ''tok-7'']]]
        \<and> hub_cmds (since (lp_st hub0) (snd (newLongpollConnection srv_open hub_handle
             ''tok-7'' 7 lp_auth_msg (lp_st hub0)))) = [NewClient 7]
        \<and> hubst (snd (newLongpollConnection srv_open hub_handle ''tok-7'' 7 lp_auth_msg
             (lp_st hub0))) = snd (hub_handle (NewClient 7) (hubst (lp_st hub0)))))"
proof -
  have h1: "at lp_bla_msg ''__type'' \<noteq> AuthMessage" by simp
  have h2: "at lp_auth_msg ''__type'' = AuthMessage" by simp
  have h3: "refuses_connect srv_closed lp_auth_msg" by simp
  have h4: "\<not> refuses_connect srv_open lp_auth_msg" by simp
  show ?thesis
    by (rule conjI [OF conjI [OF h1 conjI [OF h2 conjI [OF h3 conjI [OF h2 h4]]]]
          longpoll_handshake_outcomes [OF h1 h2 h3 h2 h4]])
qed

section \<open>Long-poll transport: requests after the handshake\<close>

text \<open>
  C10. A long-poll request whose type is anything but SubscribeMessage falls to the
  default case of \<open>Handle\<close>: the only effect is the 400 response with the text
  "Unexpected message". No command is sent to the Hub, and the Hub's state, live
  connections and subscriptions alike, is what it was. UnsubscribeMessage and a repeated
  AuthMessage are such types.
\<close>

theorem Handle_other_types:
  assumes "Type m \<noteq> SubscribeMessage"
  shows "Handle srv hs c conn m st =
           st\<lparr>trace := trace st @
             [WriteHeader 400, WriteBody (Text (''Unexpected message'' @ [CHR 0x0A]))]\<rparr>
       \<and> hub_cmds (since st (Handle srv hs c conn m st)) = []
       \<and> hubst (Handle srv hs c conn m st) = hubst st
       \<and> resp_status (since st (Handle srv hs c conn m st)) = Some 400
       \<and> resp_body (since st (Handle srv hs c conn m st)) =
           [Text (''Unexpected message'' @ [CHR 0x0A])]"
proof -
  have eq: "Handle srv hs c conn m st =
           st\<lparr>trace := trace st @
             [WriteHeader 400, WriteBody (Text (''Unexpected message'' @ [CHR 0x0A]))]\<rparr>"
    using assms by (rule Handle_default)
  show ?thesis
    by (simp add: eq since_def)
qed

theorem Handle_other_types_witness:
  "(Type (lp_unsubscribe_msg ''test'') \<noteq> SubscribeMessage
    \<and> (Handle srv_open hub_handle 7 conn7 (lp_unsubscribe_msg ''test'') (lp_st hub1) =
           (lp_st hub1)\<lparr>trace := trace (lp_st hub1) @
             [WriteHeader 400, WriteBody (Text (''Unexpected message'' @ [CHR 0x0A]))]\<rparr>
       \<and> hub_cmds (since (lp_st hub1)
            (Handle srv_open hub_handle 7 conn7 (lp_unsubscribe_msg ''test'') (lp_st hub1))) = []
       \<and> hubst (Handle srv_open hub_handle 7 conn7 (lp_unsubscribe_msg ''test'') (lp_st hub1)) =
           hubst (lp_st hub1)
       \<and> resp_status (since (lp_st hub1)
            (Handle srv_open hub_handle 7 conn7 (lp_unsubscribe_msg ''test'') (lp_st hub1))) =
           Some 400
       \<and> resp_body (since (lp_st hub1)
            (Handle srv_open hub_handle 7 conn7 (lp_unsubscribe_msg ''test'') (lp_st hub1))) =
           [Text (''Unexpected message'' @ [CHR 0x0A])]))
   \<and> (Type lp_auth_msg \<noteq> SubscribeMessage
    \<and> (Handle srv_open hub_handle 7 conn7 lp_auth_msg (lp_st hub1) =
           (lp_st hub1)\<lparr>trace := trace (lp_st hub1) @
             [WriteHeader 400, WriteBody (Text (''Unexpected message'' @ [CHR 0x0A]))]\<rparr>
       \<and> hub_cmds (since (lp_st hub1)
            (Handle srv_open hub_handle 7 conn7 lp_auth_msg (lp_st hub1))) = []
       \<and> hubst (Handle srv_open hub_handle 7 conn7 lp_auth_msg (lp_st hub1)) =
           hubst (lp_st hub1)
       \<and> resp_status (since (lp_st hub1)
            (Handle srv_open hub_handle 7 conn7 lp_auth_msg (lp_st hub1))) = Some 400
       \<and> resp_body (since (lp_st hub1)
            (Handle srv_open hub_handle 7 conn7 lp_auth_msg (lp_st hub1))) =
           [Text (''Unexpected message'' @ [CHR 0x0A])]))"
proof -
  have h1: "Type (lp_unsubscribe_msg ''test'') \<noteq> SubscribeMessage"
    by (simp add: types_neq)
  have h2: "Type lp_auth_msg \<noteq> SubscribeMessage"
    by (simp add: types_neq)
  show ?thesis
    by (rule conjI [OF conjI [OF h1 Handle_other_types [OF h1]]
          conjI [OF h2 Handle_other_types [OF h2]]])
qed

text \<open>
  C5. The source at an UnsubscribeMessage from a connection that is subscribed to "test":
  the response is the 400 of the default case, no Unsubscribe reaches the Hub, and the
  subscription stays in the Hub's table.
\<close>

theorem longpoll_unsubscribe_rejected:
  "since (lp_st hub1)
     (Handle srv_open hub_handle 7 conn7 (lp_unsubscribe_msg ''test'') (lp_st hub1)) =
     [WriteHeader 400, WriteBody (Text (''Unexpected message'' @ [CHR 0x0A]))]
   \<and> subscriptions (hubst
       (Handle srv_open hub_handle 7 conn7 (lp_unsubscribe_msg ''test'') (lp_st hub1))) =
     [(''test'', 7)]"
proof -
  have "Type (lp_unsubscribe_msg ''test'') \<noteq> SubscribeMessage"
    by (simp add: types_neq)
  then have "Handle srv_open hub_handle 7 conn7 (lp_unsubscribe_msg ''test'') (lp_st hub1) =
      (lp_st hub1)\<lparr>trace := trace (lp_st hub1) @
        [WriteHeader 400, WriteBody (Text (''Unexpected message'' @ [CHR 0x0A]))]\<rparr>"
    by (rule Handle_default)
  then show ?thesis
    by (simp add: since_def hub1_def)
qed

text \<open>
  C4. The source's \<open>Send\<close> of a long-poll connection: it returns the connection and the
  server's state as they were, so nothing is queued, and a later request is answered as
  it would have been without the \<open>Send\<close>.
\<close>

theorem longpoll_Send_no_effect:
  "lp_Send conn channel message st = (conn, st)
   \<and> Handle srv hs c (fst (lp_Send conn channel message st)) m
       (snd (lp_Send conn channel message st)) = Handle srv hs c conn m st"
  by (simp add: lp_Send_def)

section \<open>Long-poll transport: the client's token\<close>

text \<open>
  C8 (as amended). The client transport puts a \<^verbatim>\<open>__token\<close> entry, holding its current
  token, into the body of every request it sends. On a new transport the token is the
  empty string, so the initial request of \<open>Connect\<close> carries \<^verbatim>\<open>__token\<close> with the empty
  string. \<open>Receive\<close> takes the token of an AuthOKMessage it returns as the new current
  token and leaves it alone on any other message; \<open>Send\<close> does not change it. So every
  request sent after the AuthOKMessage was received carries that message's token.
\<close>

theorem client_token:
  assumes "messages t = m # ms" and "Type m = AuthOKMessage"
    and "messages u = n # ns" and "Type n \<noteq> AuthOKMessage"
  shows "map (\<lambda>b. b ''__token'')
           (posted (snd (lpc_Connect post authData (newlongpollClientTransport skip)))) =
           [Some []]
       \<and> posted (snd (lpc_Send post data v)) = posted v @ [data(''__token'' \<mapsto> token v)]
       \<and> token (snd (lpc_Send post data v)) = token v
       \<and> token (snd (lpc_Receive t)) = Token m
       \<and> posted (snd (lpc_Send post data (snd (lpc_Receive t)))) =
           posted t @ [data(''__token'' \<mapsto> Token m)]
       \<and> token (snd (lpc_Receive u)) = token u"
proof -
  have send: "posted (snd (lpc_Send post d w)) = posted w @ [d(''__token'' \<mapsto> token w)]
      \<and> token (snd (lpc_Send post d w)) = token w" for d w
    by (simp add: lpc_Send_def Let_def split: sum.splits)
  have connect: "map (\<lambda>b. b ''__token'')
           (posted (snd (lpc_Connect post authData (newlongpollClientTransport skip)))) =
           [Some []]"
    by (simp add: lpc_Connect_def Let_def send newlongpollClientTransport_def)
  have recv: "token (snd (lpc_Receive t)) = Token m \<and> posted (snd (lpc_Receive t)) = posted t"
    using assms(1,2) by (simp add: lpc_Receive_def)
  have keep: "token (snd (lpc_Receive u)) = token u"
    using assms(3,4) by (simp add: lpc_Receive_def)
  show ?thesis
    by (simp add: send connect recv keep)
qed

theorem client_token_witness:
  "(messages lpc_authed = [''__type'' \<mapsto> AuthOKMessage, ''__token'' \<mapsto> ''tok-7''] # []
    \<and> Type [''__type'' \<mapsto> AuthOKMessage, ''__token'' \<mapsto> ''tok-7''] = AuthOKMessage
    \<and> messages lpc_pending = [''__type'' \<mapsto> SubscribeOKMessage, ''channel'' \<mapsto> ''test''] # []
    \<and> Type [''__type'' \<mapsto> SubscribeOKMessage, ''channel'' \<mapsto> ''test''] \<noteq> AuthOKMessage)
   \<and> (map (\<lambda>b. b ''__token'')
           (posted (snd (lpc_Connect post_ok None (newlongpollClientTransport False)))) =
           [Some []]
       \<and> posted (snd (lpc_Send post_ok (lp_subscribe_msg ''test'') lpc_pending)) =
           posted lpc_pending @ [(lp_subscribe_msg ''test'')(''__token'' \<mapsto> token lpc_pending)]
       \<and> token (snd (lpc_Send post_ok (lp_subscribe_msg ''test'') lpc_pending)) =
           token lpc_pending
       \<and> token (snd (lpc_Receive lpc_authed)) =
           Token [''__type'' \<mapsto> AuthOKMessage, ''__token'' \<mapsto> ''tok-7'']
       \<and> posted (snd (lpc_Send post_ok (lp_subscribe_msg ''test'')
            (snd (lpc_Receive lpc_authed)))) =
           posted lpc_authed @ [(lp_subscribe_msg ''test'')(''__token'' \<mapsto>
             Token [''__type'' \<mapsto> AuthOKMessage, ''__token'' \<mapsto> ''tok-7''])]
       \<and> token (snd (lpc_Receive lpc_pending)) = token lpc_pending)"
proof -
  have h1: "messages lpc_authed =
      [''__type'' \<mapsto> AuthOKMessage, ''__token'' \<mapsto> ''tok-7''] # []"
    by (simp add: lpc_authed_def)
  have h2: "Type [''__type'' \<mapsto> AuthOKMessage, ''__token'' \<mapsto> ''tok-7''] = AuthOKMessage"
    by (simp add: Type_def at_def known_types_def)
  have h3: "messages lpc_pending =
      [''__type'' \<mapsto> SubscribeOKMessage, ''channel'' \<mapsto> ''test''] # []"
    by (simp add: lpc_pending_def)
  have "SubscribeOKMessage \<noteq> AuthOKMessage"
    using msg_types_distinct by (auto simp: known_types_def)
  then have h4: "Type [''__type'' \<mapsto> SubscribeOKMessage, ''channel'' \<mapsto> ''test''] \<noteq>
      AuthOKMessage"
    by (simp add: Type_def at_def known_types_def)
  show ?thesis
    by (rule conjI [OF conjI [OF h1 conjI [OF h2 conjI [OF h3 h4]]]
          client_token [OF h1 h2 h3 h4]])
qed

text \<open>
  The claim as written fails on the initial request: the body that \<open>Connect\<close> posts from a
  new transport has the key \<^verbatim>\<open>__token\<close>, bound to the empty string.
\<close>

theorem initial_token_counterexample:
  "posted (snd (lpc_Connect post_ok None (newlongpollClientTransport False))) =
     [[''__type'' \<mapsto> AuthMessage, ''__token'' \<mapsto> []]]
   \<and> ''__token'' \<in> dom [''__type'' \<mapsto> AuthMessage, ''__token'' \<mapsto> []]"
  by (simp add: lpc_Connect_def lpc_Send_def Let_def newlongpollClientTransport_def
      post_ok_def)

end
